theory Spec2Isabelle
  imports Complex_Main
begin

section \<open>Python values\<close>

text \<open>
  The analyzer of \<^verbatim>\<open>dex_arbitrage_backtesting/analyzer/arbitrage_analyzer.py\<close> computes with
  Python numbers. Integers are \<^typ>\<open>int\<close>; a Python \<^verbatim>\<open>float\<close> is idealised as a
  \<^typ>\<open>real\<close>: every operation is exact, so rounding, overflow to infinity and not-a-number
  values are outside this model. What Python raises is inside it: a true division by
  zero raises \<^verbatim>\<open>ZeroDivisionError\<close>, and a lookup of an absent key or column raises
  \<^verbatim>\<open>KeyError\<close>. A computation that may raise returns a sum, \<open>Inl\<close> carrying the exception.
\<close>

datatype py_error = ZeroDivisionError | KeyError | DatabaseError

definition truediv :: "real \<Rightarrow> real \<Rightarrow> py_error + real" where
  "truediv a b = (if b = 0 then Inl ZeroDivisionError else Inr (a / b))"

text \<open>\<^verbatim>\<open>x or default\<close> on an optional integer: \<^verbatim>\<open>None\<close> and \<^verbatim>\<open>0\<close> are both falsy.\<close>

definition py_or :: "int option \<Rightarrow> int \<Rightarrow> int" where
  "py_or x d = (case x of None \<Rightarrow> d | Some v \<Rightarrow> if v = 0 then d else v)"

text \<open>\<^verbatim>\<open>10 ** d\<close> for an integer \<open>d\<close>: an integer power, or its reciprocal when \<open>d < 0\<close>.\<close>

definition pow10 :: "int \<Rightarrow> real" where
  "pow10 d = (if 0 \<le> d then 10 ^ nat d else 1 / 10 ^ nat (- d))"

text \<open>\<^verbatim>\<open>str(i)\<close> for an integer, as the f-string of \<^verbatim>\<open>opportunity_id\<close> renders it.\<close>

fun digits_of :: "nat \<Rightarrow> string" where
  "digits_of n =
     (if n < 10 then [''0123456789'' ! n]
      else digits_of (n div 10) @ [''0123456789'' ! (n mod 10)])"

definition py_str :: "int \<Rightarrow> string" where
  "py_str i = (if i < 0 then CHR ''-'' # digits_of (nat (- i)) else digits_of (nat i))"

section \<open>The analyzer and its configuration\<close>

text \<open>The fields \<^verbatim>\<open>__init__\<close> stores; the database handle is passed separately.\<close>

record analyzer =
  min_spread_bps :: int
  gas_price_gwei :: int
  gas_limit :: int
  eth_price_usd :: real
  uniswap_fee_bps :: int
  sushiswap_fee_bps :: int

text \<open>\<^verbatim>\<open>ArbitrageAnalyzer()\<close> with the constructor's default arguments.\<close>

definition default_analyzer :: analyzer where
  "default_analyzer =
     \<lparr>min_spread_bps = 50, gas_price_gwei = 20, gas_limit = 500000, eth_price_usd = 2000,
      uniswap_fee_bps = 30, sushiswap_fee_bps = 30\<rparr>"

definition calculate_gas_cost :: "analyzer \<Rightarrow> int option \<Rightarrow> real" where
  "calculate_gas_cost self gas_price_arg =
     (let gas_price = py_or gas_price_arg (gas_price_gwei self);
          gas_cost_eth = real_of_int gas_price * real_of_int (gas_limit self) * (1 / 10 ^ 9);
          gas_cost_usd = gas_cost_eth * eth_price_usd self
      in gas_cost_usd)"

definition get_exchange_fee :: "analyzer \<Rightarrow> string \<Rightarrow> int" where
  "get_exchange_fee self exchange_name =
     (let fees = [''Uniswap V2'' \<mapsto> uniswap_fee_bps self, ''SushiSwap'' \<mapsto> sushiswap_fee_bps self]
      in case fees exchange_name of Some fee \<Rightarrow> fee | None \<Rightarrow> 30)"

section \<open>Constant-product price impact\<close>

record price_impact_result =
  amount_in :: real
  amount_out :: real
  price_before :: real
  price_after :: real
  price_impact :: real
  price_impact_bps :: real

text \<open>
  The body of the \<^verbatim>\<open>try\<close> block of \<^verbatim>\<open>calculate_price_impact\<close>: the zero-reserve guard
  returns \<^verbatim>\<open>None\<close> early, each of the four divisions may raise.
\<close>

definition price_impact_body :: "real \<Rightarrow> real \<Rightarrow> real \<Rightarrow> py_error + price_impact_result option" where
  "price_impact_body amt_in reserve_in reserve_out =
     (if reserve_in = 0 \<or> reserve_out = 0 then Inr None
      else case truediv (reserve_out * amt_in) (reserve_in + amt_in) of
        Inl e \<Rightarrow> Inl e
      | Inr amt_out \<Rightarrow>
         (case truediv reserve_out reserve_in of
            Inl e \<Rightarrow> Inl e
          | Inr p_before \<Rightarrow>
             (case truediv (reserve_out - amt_out) (reserve_in + amt_in) of
                Inl e \<Rightarrow> Inl e
              | Inr p_after \<Rightarrow>
                 (case truediv (p_after - p_before) p_before of
                    Inl e \<Rightarrow> Inl e
                  | Inr p_impact \<Rightarrow>
                      Inr (Some \<lparr>amount_in = amt_in, amount_out = amt_out,
                                 price_before = p_before, price_after = p_after,
                                 price_impact = p_impact,
                                 price_impact_bps = p_impact * 10000\<rparr>)))))"

text \<open>\<^verbatim>\<open>except Exception\<close>: the error is logged and \<^verbatim>\<open>None\<close> is returned.\<close>

definition calculate_price_impact :: "real \<Rightarrow> real \<Rightarrow> real \<Rightarrow> price_impact_result option" where
  "calculate_price_impact amt_in reserve_in reserve_out =
     (case price_impact_body amt_in reserve_in reserve_out of
        Inl e \<Rightarrow> None
      | Inr r \<Rightarrow> r)"

section \<open>Pool states and opportunity detection\<close>

text \<open>
  One row of the query of \<^verbatim>\<open>detect_arbitrage_opportunities\<close>: a pool of one exchange at the
  block, with its raw integer reserves and the decimals of its two tokens.
\<close>

record pool_state =
  pair_address :: string
  token0_address :: string
  token1_address :: string
  exchange_name :: string
  reserve0 :: int
  reserve1 :: int
  timestamp :: string
  token0_symbol :: string
  token1_symbol :: string
  token0_decimals :: int
  token1_decimals :: int

text \<open>The normalisation loop adds three keys to each row.\<close>

record normalized_state = pool_state +
  reserve0_normalized :: real
  reserve1_normalized :: real
  price_token0_in_token1 :: real

text \<open>
  The database session: the rows the query returns for a block number, or the exception
  the session raises.
\<close>

type_synonym database = "int \<Rightarrow> py_error + pool_state list"

record opportunity =
  block_number :: int
  timestamp :: string
  base_token :: string
  quote_token :: string
  buy_exchange :: string
  sell_exchange :: string
  buy_pair_address :: string
  sell_pair_address :: string
  buy_price :: real
  sell_price :: real
  spread_bps :: real
  spread_percentage :: real
  buy_reserve0 :: real
  buy_reserve1 :: real
  sell_reserve0 :: real
  sell_reserve1 :: real

text \<open>One pass of the normalisation loop; the price is an unguarded division.\<close>

definition normalize_state :: "pool_state \<Rightarrow> py_error + normalized_state" where
  "normalize_state state =
     (case truediv (real_of_int (reserve0 state)) (pow10 (token0_decimals state)) of
        Inl e \<Rightarrow> Inl e
      | Inr r0 \<Rightarrow>
         (case truediv (real_of_int (reserve1 state)) (pow10 (token1_decimals state)) of
            Inl e \<Rightarrow> Inl e
          | Inr r1 \<Rightarrow>
             (case truediv r1 r0 of
                Inl e \<Rightarrow> Inl e
              | Inr price \<Rightarrow>
                  Inr \<lparr>pair_address = pair_address state,
                       token0_address = token0_address state,
                       token1_address = token1_address state,
                       exchange_name = exchange_name state,
                       reserve0 = reserve0 state, reserve1 = reserve1 state,
                       timestamp = pool_state.timestamp state,
                       token0_symbol = token0_symbol state,
                       token1_symbol = token1_symbol state,
                       token0_decimals = token0_decimals state,
                       token1_decimals = token1_decimals state,
                       reserve0_normalized = r0, reserve1_normalized = r1,
                       price_token0_in_token1 = price\<rparr>)))"

fun normalize_states :: "pool_state list \<Rightarrow> py_error + normalized_state list" where
  "normalize_states [] = Inr []"
| "normalize_states (state # rest) =
     (case normalize_state state of
        Inl e \<Rightarrow> Inl e
      | Inr s \<Rightarrow>
         (case normalize_states rest of
            Inl e \<Rightarrow> Inl e
          | Inr ss \<Rightarrow> Inr (s # ss)))"

text \<open>
  The body of the double loop for one pair \<open>(state1, state2)\<close>: the opportunity it appends,
  \<open>None\<close> when it appends nothing, or the exception of the spread's division.
\<close>

definition check_pair ::
  "int \<Rightarrow> int \<Rightarrow> normalized_state \<Rightarrow> normalized_state \<Rightarrow> py_error + opportunity option" where
  "check_pair block min_spread state1 state2 =
     (if token0_address state1 = token0_address state2
         \<and> token1_address state1 = token1_address state2
         \<and> exchange_name state1 \<noteq> exchange_name state2
      then
        let price1 = price_token0_in_token1 state1;
            price2 = price_token0_in_token1 state2
        in if price1 \<noteq> price2 then
             let (buy_state, sell_state, buy_p, sell_p) =
                   (if price1 < price2 then (state1, state2, price1, price2)
                    else (state2, state1, price2, price1))
             in case truediv (sell_p - buy_p) buy_p of
                  Inl e \<Rightarrow> Inl e
                | Inr q \<Rightarrow>
                   (let spread = q * 10000
                    in if real_of_int min_spread \<le> spread then
                         Inr (Some \<lparr>block_number = block,
                                    timestamp = pool_state.timestamp state1,
                                    base_token = token0_symbol state1,
                                    quote_token = token1_symbol state1,
                                    buy_exchange = exchange_name buy_state,
                                    sell_exchange = exchange_name sell_state,
                                    buy_pair_address = pair_address buy_state,
                                    sell_pair_address = pair_address sell_state,
                                    buy_price = buy_p, sell_price = sell_p,
                                    spread_bps = spread,
                                    spread_percentage = spread / 100,
                                    buy_reserve0 = reserve0_normalized buy_state,
                                    buy_reserve1 = reserve1_normalized buy_state,
                                    sell_reserve0 = reserve0_normalized sell_state,
                                    sell_reserve1 = reserve1_normalized sell_state\<rparr>)
                       else Inr None)
           else Inr None
      else Inr None)"

text \<open>
  \<^verbatim>\<open>for j, state2 in enumerate(pool_states[i+1:], i+1)\<close>: \<open>state1\<close> against every later state,
  appending to the list of opportunities; an exception leaves the loop.
\<close>

fun inner_loop ::
  "int \<Rightarrow> int \<Rightarrow> normalized_state \<Rightarrow> normalized_state list \<Rightarrow> opportunity list
     \<Rightarrow> py_error + opportunity list" where
  "inner_loop block min_spread state1 [] opportunities = Inr opportunities"
| "inner_loop block min_spread state1 (state2 # rest) opportunities =
     (case check_pair block min_spread state1 state2 of
        Inl e \<Rightarrow> Inl e
      | Inr None \<Rightarrow> inner_loop block min_spread state1 rest opportunities
      | Inr (Some opp) \<Rightarrow> inner_loop block min_spread state1 rest (opportunities @ [opp]))"

text \<open>\<^verbatim>\<open>for i, state1 in enumerate(pool_states)\<close>.\<close>

fun outer_loop ::
  "int \<Rightarrow> int \<Rightarrow> normalized_state list \<Rightarrow> opportunity list \<Rightarrow> py_error + opportunity list" where
  "outer_loop block min_spread [] opportunities = Inr opportunities"
| "outer_loop block min_spread (state1 # rest) opportunities =
     (case inner_loop block min_spread state1 rest opportunities of
        Inl e \<Rightarrow> Inl e
      | Inr opportunities' \<Rightarrow> outer_loop block min_spread rest opportunities')"

text \<open>The \<^verbatim>\<open>try\<close> block of \<^verbatim>\<open>detect_arbitrage_opportunities\<close>.\<close>

definition detect_body :: "analyzer \<Rightarrow> database \<Rightarrow> int \<Rightarrow> int option \<Rightarrow> py_error + opportunity list" where
  "detect_body self db block min_spread_arg =
     (let min_spread = py_or min_spread_arg (min_spread_bps self)
      in case db block of
           Inl e \<Rightarrow> Inl e
         | Inr pool_states \<Rightarrow>
             if length pool_states < 2 then Inr []
             else (case normalize_states pool_states of
                     Inl e \<Rightarrow> Inl e
                   | Inr states \<Rightarrow> outer_loop block min_spread states []))"

text \<open>\<^verbatim>\<open>except Exception\<close>: the error is logged and the empty list is returned.\<close>

definition detect_arbitrage_opportunities ::
  "analyzer \<Rightarrow> database \<Rightarrow> int \<Rightarrow> int option \<Rightarrow> opportunity list" where
  "detect_arbitrage_opportunities self db block min_spread_arg =
     (case detect_body self db block min_spread_arg of
        Inl e \<Rightarrow> []
      | Inr opportunities \<Rightarrow> opportunities)"

section \<open>Trade simulation\<close>

text \<open>
  The two f-strings of \<^verbatim>\<open>generate_execution_notes\<close>. The note keeps the spread it prints;
  its rendering with one decimal (\<^verbatim>\<open>:.1f\<close>) is not modelled.
\<close>

datatype execution_note =
  Profitable_arbitrage real
| Unprofitable_due_to_gas_costs real

definition generate_execution_notes :: "opportunity \<Rightarrow> bool \<Rightarrow> execution_note" where
  "generate_execution_notes opp profitable =
     (if profitable then Profitable_arbitrage (spread_bps opp)
      else Unprofitable_due_to_gas_costs (spread_bps opp))"

text \<open>The local variables of \<^verbatim>\<open>simulate_arbitrage_trade\<close>, one definition per assignment.\<close>

definition choose_trade_amount :: "opportunity \<Rightarrow> real option \<Rightarrow> real" where
  "choose_trade_amount opp amount_arg =
     (case amount_arg of
        None \<Rightarrow> min (buy_reserve0 opp * (1 / 10)) (sell_reserve0 opp * (1 / 10))
      | Some amount \<Rightarrow> amount)"

definition fee_multiplier :: "int \<Rightarrow> real" where
  "fee_multiplier fee_bps = 1 - real_of_int fee_bps / 10000"

definition amount_after_buy :: "real \<Rightarrow> int \<Rightarrow> real" where
  "amount_after_buy amount buy_fee = amount * fee_multiplier buy_fee"

definition amount_received :: "real \<Rightarrow> int \<Rightarrow> real \<Rightarrow> int \<Rightarrow> real" where
  "amount_received amount buy_fee sell_p sell_fee =
     amount_after_buy amount buy_fee * sell_p * fee_multiplier sell_fee"

definition cost_to_buy :: "real \<Rightarrow> real \<Rightarrow> real" where
  "cost_to_buy amount buy_p = amount * buy_p"

definition impact_bps_or_zero :: "price_impact_result option \<Rightarrow> real" where
  "impact_bps_or_zero impact = (case impact of Some r \<Rightarrow> price_impact_bps r | None \<Rightarrow> 0)"

record trade_simulation =
  opportunity_id :: string
  block_number :: int
  timestamp :: string
  base_token :: string
  quote_token :: string
  buy_exchange :: string
  sell_exchange :: string
  trade_amount_base :: real
  buy_price :: real
  sell_price :: real
  spread_bps :: real
  gross_profit :: real
  gas_cost_usd :: real
  net_profit :: real
  is_profitable :: bool
  roi_percentage :: real
  buy_fee_bps :: int
  sell_fee_bps :: int
  buy_price_impact_bps :: real
  sell_price_impact_bps :: real
  execution_notes :: execution_note

text \<open>
  \<^verbatim>\<open>simulate_arbitrage_trade\<close>. The opportunity is a record, so no key is missing; the
  divisions are by the constant 10000 and by a \<open>cost_to_buy\<close> checked to be positive, and
  \<^verbatim>\<open>calculate_price_impact\<close> handles its own exceptions: no statement of the \<^verbatim>\<open>try\<close> block
  raises, and the function returns the dictionary.
\<close>

definition simulate_arbitrage_trade ::
  "analyzer \<Rightarrow> opportunity \<Rightarrow> real option \<Rightarrow> trade_simulation option" where
  "simulate_arbitrage_trade self opp amount_arg =
     (let amount = choose_trade_amount opp amount_arg;
          buy_fee = get_exchange_fee self (opportunity.buy_exchange opp);
          sell_fee = get_exchange_fee self (opportunity.sell_exchange opp);
          after_buy = amount_after_buy amount buy_fee;
          received = amount_received amount buy_fee (opportunity.sell_price opp) sell_fee;
          cost = cost_to_buy amount (opportunity.buy_price opp);
          gross = received - cost;
          gas = calculate_gas_cost self None;
          net = gross - gas;
          buy_impact =
            calculate_price_impact amount (buy_reserve0 opp) (buy_reserve1 opp);
          sell_impact =
            calculate_price_impact after_buy (sell_reserve0 opp) (sell_reserve1 opp);
          profitable = (0 < net);
          roi = (if 0 < cost then net / cost * 100 else 0)
      in Some \<lparr>opportunity_id =
                  py_str (opportunity.block_number opp) @ ''_''
                    @ opportunity.buy_exchange opp @ ''_'' @ opportunity.sell_exchange opp,
                block_number = opportunity.block_number opp,
                timestamp = opportunity.timestamp opp,
                base_token = opportunity.base_token opp,
                quote_token = opportunity.quote_token opp,
                buy_exchange = opportunity.buy_exchange opp,
                sell_exchange = opportunity.sell_exchange opp,
                trade_amount_base = amount,
                buy_price = opportunity.buy_price opp,
                sell_price = opportunity.sell_price opp,
                spread_bps = opportunity.spread_bps opp,
                gross_profit = gross,
                gas_cost_usd = gas,
                net_profit = net,
                is_profitable = profitable,
                roi_percentage = roi,
                buy_fee_bps = buy_fee,
                sell_fee_bps = sell_fee,
                buy_price_impact_bps = impact_bps_or_zero buy_impact,
                sell_price_impact_bps = impact_bps_or_zero sell_impact,
                execution_notes = generate_execution_notes opp profitable\<rparr>)"

section \<open>The block-range loop\<close>

text \<open>
  A pandas DataFrame, as far as the analyzer uses it: the column labels and the rows.
  \<^verbatim>\<open>pd.DataFrame(rows)\<close> on a list of dictionaries takes the columns from the keys of the
  dictionaries, so the frame of an empty list has no column at all.
\<close>

datatype 'row dataframe = DataFrame (df_columns: "string list") (df_rows: "'row list")

definition pd_DataFrame :: "string list \<Rightarrow> 'row list \<Rightarrow> 'row dataframe" where
  "pd_DataFrame keys rows = DataFrame (if rows = [] then [] else keys) rows"

definition opportunity_keys :: "string list" where
  "opportunity_keys =
     [''block_number'', ''timestamp'', ''base_token'', ''quote_token'', ''buy_exchange'',
      ''sell_exchange'', ''buy_pair_address'', ''sell_pair_address'', ''buy_price'',
      ''sell_price'', ''spread_bps'', ''spread_percentage'', ''buy_reserve0'', ''buy_reserve1'',
      ''sell_reserve0'', ''sell_reserve1'']"

definition trade_keys :: "string list" where
  "trade_keys =
     [''opportunity_id'', ''block_number'', ''timestamp'', ''base_token'', ''quote_token'',
      ''buy_exchange'', ''sell_exchange'', ''trade_amount_base'', ''buy_price'', ''sell_price'',
      ''spread_bps'', ''gross_profit'', ''gas_cost_usd'', ''net_profit'', ''is_profitable'',
      ''roi_percentage'', ''buy_fee_bps'', ''sell_fee_bps'', ''buy_price_impact_bps'',
      ''sell_price_impact_bps'', ''execution_notes'']"

text \<open>
  The loop of \<^verbatim>\<open>analyze_historical_opportunities\<close> calls the detector and the simulator
  inside a \<^verbatim>\<open>try\<close>. To say what the handler does, the loop is first written for any
  detector and simulator, which may raise; the analyzer's own follow below.

  The inner \<^verbatim>\<open>for opportunity in opportunities\<close>: the two lists are appended to in place,
  so what was appended before an exception stays. The result is the two lists and the
  exception that ended the loop, if any.
\<close>

fun simulate_each ::
  "('o \<Rightarrow> py_error + 't option) \<Rightarrow> 'o list \<Rightarrow> 'o list \<times> 't list
     \<Rightarrow> ('o list \<times> 't list) \<times> py_error option" where
  "simulate_each simulate [] (all_opportunities, all_trades) =
     ((all_opportunities, all_trades), None)"
| "simulate_each simulate (opp # rest) (all_opportunities, all_trades) =
     (case simulate opp of
        Inl e \<Rightarrow> ((all_opportunities @ [opp], all_trades), Some e)
      | Inr None \<Rightarrow> simulate_each simulate rest (all_opportunities @ [opp], all_trades)
      | Inr (Some trade) \<Rightarrow>
          simulate_each simulate rest (all_opportunities @ [opp], all_trades @ [trade]))"

text \<open>
  One iteration of \<^verbatim>\<open>for block_number in range(from_block, to_block + 1)\<close>: the \<^verbatim>\<open>try\<close>
  block, and \<^verbatim>\<open>except Exception: ... continue\<close>, which logs the exception and goes on with
  the lists as they are. The progress bar is not modelled.
\<close>

definition analyze_block ::
  "(int \<Rightarrow> int \<Rightarrow> py_error + 'o list) \<Rightarrow> ('o \<Rightarrow> py_error + 't option) \<Rightarrow> int
     \<Rightarrow> 'o list \<times> 't list \<Rightarrow> int \<Rightarrow> 'o list \<times> 't list" where
  "analyze_block detect simulate min_spread collected block =
     (case detect block min_spread of
        Inl e \<Rightarrow> collected
      | Inr opportunities \<Rightarrow> fst (simulate_each simulate opportunities collected))"

definition analyze_blocks ::
  "(int \<Rightarrow> int \<Rightarrow> py_error + 'o list) \<Rightarrow> ('o \<Rightarrow> py_error + 't option) \<Rightarrow> int
     \<Rightarrow> int \<Rightarrow> int \<Rightarrow> 'o list \<times> 't list" where
  "analyze_blocks detect simulate min_spread from_block to_block =
     foldl (analyze_block detect simulate min_spread) ([], []) [from_block..to_block]"

text \<open>
  \<^verbatim>\<open>analyze_historical_opportunities\<close>: the loop with the analyzer's detector and simulator,
  neither of which raises, and the two DataFrames built from the lists.
\<close>

definition analyze_historical_opportunities ::
  "analyzer \<Rightarrow> database \<Rightarrow> int \<Rightarrow> int \<Rightarrow> int option
     \<Rightarrow> opportunity dataframe \<times> trade_simulation dataframe" where
  "analyze_historical_opportunities self db from_block to_block min_spread_arg =
     (let min_spread = py_or min_spread_arg (min_spread_bps self);
          (all_opportunities, all_trades) =
            analyze_blocks
              (\<lambda>block ms. Inr (detect_arbitrage_opportunities self db block (Some ms)))
              (\<lambda>opp. Inr (simulate_arbitrage_trade self opp None))
              min_spread from_block to_block
      in (pd_DataFrame opportunity_keys all_opportunities, pd_DataFrame trade_keys all_trades))"

section \<open>Summary statistics\<close>

text \<open>\<^verbatim>\<open>df[name]\<close>: the column as a list, or \<^verbatim>\<open>KeyError\<close> when the frame has no such column.\<close>

definition column :: "'row dataframe \<Rightarrow> string \<Rightarrow> ('row \<Rightarrow> 'v) \<Rightarrow> py_error + 'v list" where
  "column df name field =
     (if name \<in> set (df_columns df) then Inr (map field (df_rows df)) else Inl KeyError)"

definition and_then :: "py_error + 'a \<Rightarrow> ('a \<Rightarrow> py_error + 'b) \<Rightarrow> py_error + 'b" where
  "and_then r f = (case r of Inl e \<Rightarrow> Inl e | Inr v \<Rightarrow> f v)"

text \<open>\<^verbatim>\<open>len(df_trades[df_trades['is_profitable'] == True])\<close>.\<close>

definition count_profitable :: "trade_simulation dataframe \<Rightarrow> py_error + nat" where
  "count_profitable df_trades =
     and_then (column df_trades ''is_profitable'' is_profitable)
       (\<lambda>flags. Inr (length (filter (\<lambda>flag. flag = True) flags)))"

text \<open>
  \<^verbatim>\<open>value if len(df) > 0 else 0\<close>: the value is computed from the frame, and may raise,
  only when the frame has a row.
\<close>

definition if_rows :: "'row dataframe \<Rightarrow> ('row dataframe \<Rightarrow> py_error + real) \<Rightarrow> py_error + real" where
  "if_rows df v = (if 0 < length (df_rows df) then v df else Inr 0)"

text \<open>
  \<^verbatim>\<open>.sum()\<close>, \<^verbatim>\<open>.mean()\<close> and \<^verbatim>\<open>.max()\<close> of a column. The analyzer calls the last two under
  the guard above only, on a column with at least one value.
\<close>

definition series_sum :: "py_error + real list \<Rightarrow> py_error + real" where
  "series_sum col = and_then col (\<lambda>xs. Inr (sum_list xs))"

definition series_mean :: "py_error + real list \<Rightarrow> py_error + real" where
  "series_mean col = and_then col (\<lambda>xs. Inr (sum_list xs / real (length xs)))"

definition series_max :: "py_error + real list \<Rightarrow> py_error + real" where
  "series_max col = and_then col (\<lambda>xs. Inr (fold max (tl xs) (hd xs)))"

record summary =
  total_opportunities :: nat
  total_trades :: nat
  profitable_trades :: nat
  profitable_rate :: real
  avg_spread_bps :: real
  max_spread_bps :: real
  total_gross_profit :: real
  total_net_profit :: real
  total_gas_costs :: real
  avg_roi :: real

text \<open>
  The dictionary display in the \<^verbatim>\<open>try\<close> block of \<^verbatim>\<open>get_opportunity_summary\<close>, its values
  evaluated in the order they are written.
\<close>

definition summary_body ::
  "opportunity dataframe \<Rightarrow> trade_simulation dataframe \<Rightarrow> py_error + summary" where
  "summary_body df_opportunities df_trades =
     and_then (count_profitable df_trades) (\<lambda>profitable.
     and_then (if_rows df_trades
                 (\<lambda>df. and_then (count_profitable df)
                    (\<lambda>n. Inr (real n / real (length (df_rows df)))))) (\<lambda>rate.
     and_then (if_rows df_opportunities
                 (\<lambda>df. series_mean (column df ''spread_bps'' opportunity.spread_bps)))
       (\<lambda>avg_spread.
     and_then (if_rows df_opportunities
                 (\<lambda>df. series_max (column df ''spread_bps'' opportunity.spread_bps)))
       (\<lambda>max_spread.
     and_then (if_rows df_trades (\<lambda>df. series_sum (column df ''gross_profit'' gross_profit)))
       (\<lambda>gross.
     and_then (if_rows df_trades (\<lambda>df. series_sum (column df ''net_profit'' net_profit)))
       (\<lambda>net.
     and_then (if_rows df_trades (\<lambda>df. series_sum (column df ''gas_cost_usd'' gas_cost_usd)))
       (\<lambda>gas.
     and_then (if_rows df_trades
                 (\<lambda>df. series_mean (column df ''roi_percentage'' roi_percentage)))
       (\<lambda>roi.
     Inr \<lparr>total_opportunities = length (df_rows df_opportunities),
          total_trades = length (df_rows df_trades),
          profitable_trades = profitable,
          profitable_rate = rate,
          avg_spread_bps = avg_spread,
          max_spread_bps = max_spread,
          total_gross_profit = gross,
          total_net_profit = net,
          total_gas_costs = gas,
          avg_roi = roi\<rparr>))))))))"

text \<open>
  \<^verbatim>\<open>except Exception\<close>: the error is logged and the empty dictionary \<^verbatim>\<open>{}\<close> is returned,
  here \<open>None\<close>: a dictionary without any of the fields.
\<close>

definition get_opportunity_summary ::
  "opportunity dataframe \<Rightarrow> trade_simulation dataframe \<Rightarrow> summary option" where
  "get_opportunity_summary df_opportunities df_trades =
     (case summary_body df_opportunities df_trades of
        Inl e \<Rightarrow> None
      | Inr s \<Rightarrow> Some s)"

section \<open>Example data\<close>

text \<open>
  Two pools of the same pair on two exchanges at one block, priced 2000 and 2020, and the
  opportunity between them; a pool whose first reserve is zero, one whose second reserve is
  zero, and one priced 2004, 20 basis points above the first.
\<close>

definition uniswap_pool :: pool_state where
  "uniswap_pool =
     \<lparr>pair_address = ''0xB4e1'', token0_address = ''0xC02a'', token1_address = ''0xA0b8'',
      exchange_name = ''Uniswap V2'', reserve0 = 1000 * 10 ^ 18, reserve1 = 2000000 * 10 ^ 6,
      timestamp = ''2023-08-26 16:21:23'', token0_symbol = ''WETH'', token1_symbol = ''USDC'',
      token0_decimals = 18, token1_decimals = 6\<rparr>"

definition sushiswap_pool :: pool_state where
  "sushiswap_pool =
     uniswap_pool\<lparr>pair_address := ''0x397F'', exchange_name := ''SushiSwap'',
                   reserve1 := 2020000 * 10 ^ 6\<rparr>"

definition drained_pool :: pool_state where
  "drained_pool =
     uniswap_pool\<lparr>pair_address := ''0x06da'', exchange_name := ''Shibaswap'', reserve0 := 0\<rparr>"

definition quote_drained_pool :: pool_state where
  "quote_drained_pool =
     uniswap_pool\<lparr>pair_address := ''0x06da'', exchange_name := ''Shibaswap'', reserve1 := 0\<rparr>"

definition close_pool :: pool_state where
  "close_pool =
     uniswap_pool\<lparr>pair_address := ''0x06da'', exchange_name := ''SushiSwap'',
                   reserve1 := 2004000 * 10 ^ 6\<rparr>"

definition example_opportunity :: opportunity where
  "example_opportunity =
     \<lparr>opportunity.block_number = 18000000, timestamp = ''2023-08-26 16:21:23'',
      base_token = ''WETH'', quote_token = ''USDC'',
      buy_exchange = ''Uniswap V2'', sell_exchange = ''SushiSwap'',
      buy_pair_address = ''0xB4e1'', sell_pair_address = ''0x397F'',
      buy_price = 2000, sell_price = 2020, spread_bps = 100, spread_percentage = 1,
      buy_reserve0 = 1000, buy_reserve1 = 2000000,
      sell_reserve0 = 1000, sell_reserve1 = 2020000\<rparr>"




section \<open>Price impact: results\<close>

lemma price_impact_body_positive:
  assumes "0 \<le> a" and "0 < r_in" and "0 < r_out"
  shows "price_impact_body a r_in r_out =
           Inr (Some \<lparr>amount_in = a, amount_out = r_out * a / (r_in + a),
                      price_before = r_out / r_in,
                      price_after = (r_out - r_out * a / (r_in + a)) / (r_in + a),
                      price_impact =
                        ((r_out - r_out * a / (r_in + a)) / (r_in + a) - r_out / r_in) / (r_out / r_in),
                      price_impact_bps =
                        ((r_out - r_out * a / (r_in + a)) / (r_in + a) - r_out / r_in) / (r_out / r_in)
                          * 10000\<rparr>)"
proof -
  from assms have "r_in + a \<noteq> 0" and "r_in \<noteq> 0" and "r_out \<noteq> 0" and "r_out / r_in \<noteq> 0"
    by auto
  then show ?thesis
    by (simp add: price_impact_body_def truediv_def)
qed

text \<open>
  C1. With a non-negative input amount and positive reserves, \<^verbatim>\<open>calculate_price_impact\<close>
  returns a result (not \<^verbatim>\<open>None\<close>) whose fields are the constant-product formulas:
  \<open>amount_out = reserve_out * amount_in / (reserve_in + amount_in)\<close>,
  \<open>price_before = reserve_out / reserve_in\<close>,
  \<open>price_after = (reserve_out - amount_out) / (reserve_in + amount_in)\<close>,
  \<open>price_impact = (price_after - price_before) / price_before\<close> and
  \<open>price_impact_bps = price_impact * 10000\<close>.
\<close>

theorem calculate_price_impact_formulas:
  assumes "0 \<le> a" and "0 < r_in" and "0 < r_out"
  shows "\<exists>r. calculate_price_impact a r_in r_out = Some r
           \<and> amount_in r = a
           \<and> amount_out r = r_out * a / (r_in + a)
           \<and> price_before r = r_out / r_in
           \<and> price_after r = (r_out - amount_out r) / (r_in + a)
           \<and> price_impact r = (price_after r - price_before r) / price_before r
           \<and> price_impact_bps r = price_impact r * 10000"
  by (simp add: calculate_price_impact_def price_impact_body_positive [OF assms])

theorem calculate_price_impact_formulas_witness:
  "(0::real) \<le> 5 \<and> (0::real) < 100 \<and> (0::real) < 400
   \<and> (\<exists>r. calculate_price_impact 5 100 400 = Some r
           \<and> amount_in r = 5
           \<and> amount_out r = 400 * 5 / (100 + 5)
           \<and> price_before r = 400 / 100
           \<and> price_after r = (400 - amount_out r) / (100 + 5)
           \<and> price_impact r = (price_after r - price_before r) / price_before r
           \<and> price_impact_bps r = price_impact r * 10000)"
proof -
  have h1: "(0::real) \<le> 5" and h2: "(0::real) < 100" and h3: "(0::real) < 400"
    by simp_all
  from calculate_price_impact_formulas [OF h1 h2 h3] h1 h2 h3 show ?thesis
    by blast
qed

text \<open>
  C4. When \<open>reserve_in = 0\<close> or \<open>reserve_out = 0\<close>, \<^verbatim>\<open>calculate_price_impact\<close> returns
  \<^verbatim>\<open>None\<close> for every input amount. The function is total in the model: an exception of
  the body is a value the handler turns into \<^verbatim>\<open>None\<close>, so nothing is raised.
\<close>

theorem calculate_price_impact_zero_reserve:
  "r_in = 0 \<or> r_out = 0 \<Longrightarrow> calculate_price_impact a r_in r_out = None"
  by (simp add: calculate_price_impact_def price_impact_body_def)

theorem calculate_price_impact_zero_reserve_witness:
  "((0::real) = 0 \<or> (7::real) = 0) \<and> calculate_price_impact 3 0 7 = None
   \<and> ((7::real) = 0 \<or> (0::real) = 0) \<and> calculate_price_impact 3 7 0 = None"
proof -
  have h1: "(0::real) = 0 \<or> (7::real) = 0" and h2: "(7::real) = 0 \<or> (0::real) = 0"
    by simp_all
  from calculate_price_impact_zero_reserve [OF h1, of 3]
       calculate_price_impact_zero_reserve [OF h2, of 3] h1 h2
  show ?thesis by blast
qed

text \<open>
  C9. The example of the specification, evaluated: for \<open>reserve_in = 1000\<close>,
  \<open>reserve_out = 2000000\<close> and \<open>amount_in = 10\<close> the result has \<open>amount_out\<close> 19801.98 and
  \<open>price_before = 2000\<close> as claimed, but \<open>price_after\<close> is 1960.59 (not 1961.58) and
  \<open>price_impact_bps\<close> is -197.04 (not -192.1), each within half a unit of the last digit.
\<close>

theorem calculate_price_impact_example:
  "\<exists>r. calculate_price_impact 10 1000 2000000 = Some r
       \<and> \<bar>amount_out r - 1980198 / 100\<bar> \<le> 5 / 1000
       \<and> price_before r = 2000
       \<and> \<bar>price_after r - 196059 / 100\<bar> \<le> 5 / 1000
       \<and> \<bar>price_impact_bps r - (- (19704 / 100))\<bar> \<le> 5 / 1000"
  by (simp add: calculate_price_impact_def price_impact_body_def truediv_def)

text \<open>
  The claimed values 1961.58 and -192.1 are off by more than 0.98 and 4.9: the code
  returns \<open>price_after = 20000000 / 10201\<close> and \<open>price_impact_bps = - 2010000 / 10201\<close>.
\<close>

theorem calculate_price_impact_example_counterexample:
  "map_option price_after (calculate_price_impact 10 1000 2000000) = Some (20000000 / 10201)
   \<and> 98 / 100 < \<bar>(20000000 / 10201 :: real) - 196158 / 100\<bar>
   \<and> map_option price_impact_bps (calculate_price_impact 10 1000 2000000)
       = Some (- (2010000 / 10201))
   \<and> 49 / 10 < \<bar>(- (2010000 / 10201) :: real) - (- (1921 / 10))\<bar>"
  by (simp add: calculate_price_impact_def price_impact_body_def truediv_def)

section \<open>Trade simulation: results\<close>

lemma default_fee: "get_exchange_fee default_analyzer name = 30"
  by (simp add: get_exchange_fee_def default_analyzer_def)

lemma default_gas: "calculate_gas_cost default_analyzer None = 20"
  by (simp add: calculate_gas_cost_def default_analyzer_def py_or_def)

text \<open>
  C2. \<^verbatim>\<open>simulate_arbitrage_trade\<close> returns a simulation for every analyzer, opportunity and
  trade amount, and the simulation satisfies \<open>net_profit = gross_profit - gas_cost_usd\<close>,
  \<open>is_profitable\<close> exactly when \<open>net_profit > 0\<close>, and
  \<open>roi_percentage = net_profit / cost_to_buy * 100\<close> when \<open>cost_to_buy > 0\<close> and 0 otherwise,
  where \<open>cost_to_buy = trade_amount_base * buy_price\<close>.
\<close>

theorem simulate_arbitrage_trade_invariants:
  "\<exists>t. simulate_arbitrage_trade self opp amount_arg = Some t
       \<and> net_profit t = gross_profit t - gas_cost_usd t
       \<and> (is_profitable t \<longleftrightarrow> 0 < net_profit t)
       \<and> roi_percentage t =
           (if 0 < cost_to_buy (trade_amount_base t) (buy_price t)
            then net_profit t / cost_to_buy (trade_amount_base t) (buy_price t) * 100
            else 0)"
  by (simp add: simulate_arbitrage_trade_def Let_def)

theorem simulate_arbitrage_trade_invariants_witness:
  "\<exists>t. simulate_arbitrage_trade default_analyzer example_opportunity None = Some t
       \<and> net_profit t = gross_profit t - gas_cost_usd t
       \<and> (is_profitable t \<longleftrightarrow> 0 < net_profit t)
       \<and> roi_percentage t =
           (if 0 < cost_to_buy (trade_amount_base t) (buy_price t)
            then net_profit t / cost_to_buy (trade_amount_base t) (buy_price t) * 100
            else 0)"
  by (rule simulate_arbitrage_trade_invariants)

text \<open>
  C8. The example of the specification, evaluated: with \<open>trade_amount_base = 100\<close>,
  \<open>buy_price = 2000\<close>, \<open>sell_price = 2020\<close>, both fees 30 bps and a gas cost of 20,
  \<open>cost_to_buy = 200000\<close> and \<open>amount_after_buy = 99.7\<close> as claimed, but
  \<open>amount_received = 99.7 * 2020 * 0.997 = 200789.818\<close> (not 200836.8), so
  \<open>gross_profit = 789.818\<close> (not 836.8) and \<open>net_profit = 769.818\<close> (not 816.8); the trade
  is profitable.
\<close>

theorem simulate_arbitrage_trade_example:
  assumes "opportunity.buy_price opp = 2000" and "opportunity.sell_price opp = 2020"
    and "get_exchange_fee self (opportunity.buy_exchange opp) = 30"
    and "get_exchange_fee self (opportunity.sell_exchange opp) = 30"
    and "calculate_gas_cost self None = 20"
  shows "cost_to_buy 100 2000 = 200000
       \<and> amount_after_buy 100 30 = 997 / 10
       \<and> amount_received 100 30 2020 30 = 997 / 10 * 2020 * (997 / 1000)
       \<and> amount_received 100 30 2020 30 = 200789818 / 1000
       \<and> (\<exists>t. simulate_arbitrage_trade self opp (Some 100) = Some t
             \<and> gross_profit t = amount_received 100 30 2020 30 - cost_to_buy 100 2000
             \<and> gross_profit t = 789818 / 1000
             \<and> gas_cost_usd t = 20
             \<and> net_profit t = 769818 / 1000
             \<and> is_profitable t)"
  using assms
  by (simp add: simulate_arbitrage_trade_def Let_def cost_to_buy_def amount_after_buy_def
      amount_received_def fee_multiplier_def choose_trade_amount_def)

theorem simulate_arbitrage_trade_example_witness:
  "opportunity.buy_price example_opportunity = 2000
   \<and> opportunity.sell_price example_opportunity = 2020
   \<and> get_exchange_fee default_analyzer (opportunity.buy_exchange example_opportunity) = 30
   \<and> get_exchange_fee default_analyzer (opportunity.sell_exchange example_opportunity) = 30
   \<and> calculate_gas_cost default_analyzer None = 20
   \<and> (\<exists>t. simulate_arbitrage_trade default_analyzer example_opportunity (Some 100) = Some t
         \<and> gross_profit t = 789818 / 1000
         \<and> gas_cost_usd t = 20
         \<and> net_profit t = 769818 / 1000
         \<and> is_profitable t)"
proof -
  have h1: "opportunity.buy_price example_opportunity = 2000"
    and h2: "opportunity.sell_price example_opportunity = 2020"
    by (simp_all add: example_opportunity_def)
  have h3: "get_exchange_fee default_analyzer (opportunity.buy_exchange example_opportunity) = 30"
    and h4: "get_exchange_fee default_analyzer (opportunity.sell_exchange example_opportunity) = 30"
    by (rule default_fee)+
  note h5 = default_gas
  from simulate_arbitrage_trade_example [OF h1 h2 h3 h4 h5] h1 h2 h3 h4 h5
  show ?thesis by blast
qed

text \<open>
  The claimed values 200836.8, 836.8 and 816.8 are each off by more than 46.
\<close>

theorem simulate_arbitrage_trade_example_counterexample:
  "amount_received 100 30 2020 30 = 200789818 / 1000
   \<and> 46 < \<bar>amount_received 100 30 2020 30 - 2008368 / 10\<bar>
   \<and> map_option gross_profit
        (simulate_arbitrage_trade default_analyzer example_opportunity (Some 100))
       = Some (789818 / 1000)
   \<and> 46 < \<bar>(789818 / 1000 :: real) - 8368 / 10\<bar>
   \<and> map_option net_profit
        (simulate_arbitrage_trade default_analyzer example_opportunity (Some 100))
       = Some (769818 / 1000)
   \<and> 46 < \<bar>(769818 / 1000 :: real) - 8168 / 10\<bar>"
  by (simp add: simulate_arbitrage_trade_def Let_def cost_to_buy_def amount_after_buy_def
      amount_received_def fee_multiplier_def choose_trade_amount_def default_fee default_gas
      example_opportunity_def)

section \<open>Opportunity detection: results\<close>

lemmas detect_eval =
  detect_arbitrage_opportunities_def detect_body_def py_or_def default_analyzer_def
  normalize_state_def truediv_def pow10_def check_pair_def Let_def
  uniswap_pool_def sushiswap_pool_def drained_pool_def quote_drained_pool_def close_pool_def
  example_opportunity_def

lemma detect_two_pools:
  "detect_arbitrage_opportunities default_analyzer (\<lambda>block. Inr [uniswap_pool, sushiswap_pool])
     18000000 (Some 0) = [example_opportunity]"
  by (simp add: detect_eval)

lemma check_pair_emits:
  assumes "check_pair block ms s1 s2 = Inr (Some opp)"
  shows "real_of_int ms \<le> opportunity.spread_bps opp
       \<and> opportunity.buy_price opp < opportunity.sell_price opp
       \<and> opportunity.spread_bps opp =
           (opportunity.sell_price opp - opportunity.buy_price opp) / opportunity.buy_price opp * 10000
       \<and> opportunity.buy_price opp \<noteq> 0"
  using assms
  by (auto simp: check_pair_def Let_def truediv_def split: if_splits)

lemma inner_loop_set:
  "inner_loop block ms s1 rest acc = Inr out \<Longrightarrow>
   set out \<subseteq> set acc \<union> {opp. \<exists>s2 \<in> set rest. check_pair block ms s1 s2 = Inr (Some opp)}"
proof (induction rest arbitrary: acc)
  case Nil
  then show ?case by simp
next
  case (Cons s2 rest)
  show ?case
  proof (cases "check_pair block ms s1 s2")
    case (Inl e)
    with Cons.prems show ?thesis by simp
  next
    case (Inr r)
    show ?thesis
    proof (cases r)
      case None
      with Inr Cons.prems have "inner_loop block ms s1 rest acc = Inr out" by simp
      from Cons.IH [OF this] show ?thesis by auto
    next
      case (Some opp)
      with Inr Cons.prems have "inner_loop block ms s1 rest (acc @ [opp]) = Inr out" by simp
      from Cons.IH [OF this] Inr Some show ?thesis by auto
    qed
  qed
qed

lemma outer_loop_set:
  "outer_loop block ms states acc = Inr out \<Longrightarrow>
   set out \<subseteq> set acc \<union> {opp. \<exists>s1 s2. check_pair block ms s1 s2 = Inr (Some opp)}"
proof (induction states arbitrary: acc)
  case Nil
  then show ?case by simp
next
  case (Cons s1 rest)
  from Cons.prems obtain mid where
    mid: "inner_loop block ms s1 rest acc = Inr mid" and out: "outer_loop block ms rest mid = Inr out"
    by (auto split: sum.splits)
  from inner_loop_set [OF mid] Cons.IH [OF out] show ?case by blast
qed

lemma detect_emitted_by_check_pair:
  assumes "opp \<in> set (detect_arbitrage_opportunities self db block min_spread_arg)"
  shows "\<exists>s1 s2. check_pair block (py_or min_spread_arg (min_spread_bps self)) s1 s2 = Inr (Some opp)"
proof (cases "detect_body self db block min_spread_arg")
  case (Inl e)
  with assms show ?thesis by (simp add: detect_arbitrage_opportunities_def)
next
  case (Inr out)
  with assms have mem: "opp \<in> set out" by (simp add: detect_arbitrage_opportunities_def)
  show ?thesis
  proof (cases "db block")
    case (Inl e)
    with Inr show ?thesis by (simp add: detect_body_def)
  next
    case states: (Inr pool_states)
    show ?thesis
    proof (cases "length pool_states < 2")
      case True
      with Inr states mem show ?thesis by (simp add: detect_body_def)
    next
      case False
      with Inr states obtain normalized where
        "outer_loop block (py_or min_spread_arg (min_spread_bps self)) normalized [] = Inr out"
        by (cases "normalize_states pool_states") (simp_all add: detect_body_def)
      from outer_loop_set [OF this] mem show ?thesis by auto
    qed
  qed
qed

text \<open>
  C5. Every opportunity \<^verbatim>\<open>detect_arbitrage_opportunities\<close> returns has a spread of at least
  the threshold the detector compares with (\<^verbatim>\<open>min_spread_bps or self.min_spread_bps\<close>),
  \<open>spread_bps = (sell_price - buy_price) / buy_price * 10000\<close>, and \<open>buy_price < sell_price\<close>
  strictly, so no pair with equal prices is returned. The threshold compared with is the
  caller's whenever the caller's is not 0; the spread is at least the caller's threshold
  also when that is 0 and the stored default is not negative.
\<close>

theorem detect_spread_meets_threshold:
  assumes "opp \<in> set (detect_arbitrage_opportunities self db block min_spread_arg)"
  shows "real_of_int (py_or min_spread_arg (min_spread_bps self)) \<le> opportunity.spread_bps opp
       \<and> opportunity.spread_bps opp =
           (opportunity.sell_price opp - opportunity.buy_price opp) / opportunity.buy_price opp * 10000
       \<and> opportunity.buy_price opp < opportunity.sell_price opp
       \<and> (\<forall>m. min_spread_arg = Some m \<and> (m \<noteq> 0 \<or> 0 \<le> min_spread_bps self)
              \<longrightarrow> real_of_int m \<le> opportunity.spread_bps opp)"
proof -
  from detect_emitted_by_check_pair [OF assms] obtain s1 s2 where
    "check_pair block (py_or min_spread_arg (min_spread_bps self)) s1 s2 = Inr (Some opp)"
    by blast
  from check_pair_emits [OF this] have
    le: "real_of_int (py_or min_spread_arg (min_spread_bps self)) \<le> opportunity.spread_bps opp"
    and eq: "opportunity.spread_bps opp =
           (opportunity.sell_price opp - opportunity.buy_price opp) / opportunity.buy_price opp * 10000"
    and lt: "opportunity.buy_price opp < opportunity.sell_price opp"
    by blast+
  have "real_of_int m \<le> opportunity.spread_bps opp"
    if "min_spread_arg = Some m" and "m \<noteq> 0 \<or> 0 \<le> min_spread_bps self" for m
  proof (cases "m = 0")
    case True
    with that have "0 \<le> real_of_int (py_or min_spread_arg (min_spread_bps self))"
      by (simp add: py_or_def)
    with le True show ?thesis by simp
  next
    case False
    with that le show ?thesis by (simp add: py_or_def)
  qed
  with le eq lt show ?thesis by blast
qed

theorem detect_spread_meets_threshold_witness:
  "example_opportunity
     \<in> set (detect_arbitrage_opportunities default_analyzer
              (\<lambda>block. Inr [uniswap_pool, sushiswap_pool]) 18000000 (Some 80))
   \<and> (80::real) \<le> opportunity.spread_bps example_opportunity
   \<and> opportunity.spread_bps example_opportunity =
       (opportunity.sell_price example_opportunity - opportunity.buy_price example_opportunity)
         / opportunity.buy_price example_opportunity * 10000
   \<and> opportunity.buy_price example_opportunity < opportunity.sell_price example_opportunity"
proof -
  have h: "example_opportunity
     \<in> set (detect_arbitrage_opportunities default_analyzer
              (\<lambda>block. Inr [uniswap_pool, sushiswap_pool]) 18000000 (Some 80))"
    by (simp add: detect_eval)
  from detect_spread_meets_threshold [OF h] h show ?thesis
    by (simp add: py_or_def)
qed

text \<open>
  C10. A caller's threshold of 0 is replaced by the analyzer's stored default: the
  detector returns what it returns without a threshold, and with the stored default passed
  explicitly, and every opportunity it returns has a spread of at least the stored default
  (50 for the default analyzer). An opportunity with a smaller positive spread is not
  returned although the caller asked for the threshold 0.
\<close>

theorem detect_zero_threshold_is_default:
  "detect_arbitrage_opportunities self db block (Some 0) =
     detect_arbitrage_opportunities self db block None
   \<and> detect_arbitrage_opportunities self db block (Some 0) =
     detect_arbitrage_opportunities self db block (Some (min_spread_bps self))
   \<and> (\<forall>opp \<in> set (detect_arbitrage_opportunities self db block (Some 0)).
         real_of_int (min_spread_bps self) \<le> opportunity.spread_bps opp)"
proof -
  have "py_or (Some 0) (min_spread_bps self) = min_spread_bps self"
    and "py_or None (min_spread_bps self) = min_spread_bps self"
    and "py_or (Some (min_spread_bps self)) (min_spread_bps self) = min_spread_bps self"
    by (simp_all add: py_or_def)
  then have eq: "detect_arbitrage_opportunities self db block (Some 0) =
      detect_arbitrage_opportunities self db block None"
    "detect_arbitrage_opportunities self db block (Some 0) =
      detect_arbitrage_opportunities self db block (Some (min_spread_bps self))"
    by (simp_all add: detect_arbitrage_opportunities_def detect_body_def)
  have "real_of_int (min_spread_bps self) \<le> opportunity.spread_bps opp"
    if "opp \<in> set (detect_arbitrage_opportunities self db block (Some 0))" for opp
  proof -
    from detect_emitted_by_check_pair [OF that] obtain s1 s2 where
      "check_pair block (py_or (Some 0) (min_spread_bps self)) s1 s2 = Inr (Some opp)"
      by blast
    from check_pair_emits [OF this] show ?thesis by (simp add: py_or_def)
  qed
  with eq show ?thesis by blast
qed

theorem detect_zero_threshold_is_default_witness:
  "detect_arbitrage_opportunities default_analyzer (\<lambda>block. Inr [uniswap_pool, sushiswap_pool])
       18000000 (Some 0) = [example_opportunity]
   \<and> real_of_int (min_spread_bps default_analyzer) \<le> opportunity.spread_bps example_opportunity
   \<and> min_spread_bps default_analyzer = 50
   \<and> detect_arbitrage_opportunities default_analyzer (\<lambda>block. Inr [uniswap_pool, close_pool])
       18000000 (Some 0) = []
   \<and> map opportunity.spread_bps
       (detect_arbitrage_opportunities default_analyzer (\<lambda>block. Inr [uniswap_pool, close_pool])
          18000000 (Some 1)) = [20]"
proof -
  have h: "detect_arbitrage_opportunities default_analyzer
             (\<lambda>block. Inr [uniswap_pool, sushiswap_pool]) 18000000 (Some 0)
           = [example_opportunity]"
    by (rule detect_two_pools)
  have narrow: "detect_arbitrage_opportunities default_analyzer
             (\<lambda>block. Inr [uniswap_pool, close_pool]) 18000000 (Some 0) = []"
    by (simp add: detect_eval)
  have wide: "map opportunity.spread_bps
       (detect_arbitrage_opportunities default_analyzer (\<lambda>block. Inr [uniswap_pool, close_pool])
          18000000 (Some 1)) = [20]"
    by (simp add: detect_eval)
  have d: "min_spread_bps default_analyzer = 50"
    by (simp add: default_analyzer_def)
  from detect_zero_threshold_is_default
         [of default_analyzer "\<lambda>block. Inr [uniswap_pool, sushiswap_pool]" 18000000]
  have "\<forall>opp \<in> set [example_opportunity].
         real_of_int (min_spread_bps default_analyzer) \<le> opportunity.spread_bps opp"
    unfolding h by blast
  then have "real_of_int (min_spread_bps default_analyzer)
      \<le> opportunity.spread_bps example_opportunity"
    by simp
  with h narrow wide d show ?thesis by blast
qed

lemma pow10_nonzero: "pow10 d \<noteq> 0"
  by (simp add: pow10_def)

lemma normalize_states_zero_reserve0:
  "s \<in> set states \<Longrightarrow> reserve0 s = 0 \<Longrightarrow> \<exists>e. normalize_states states = Inl e"
proof (induction states)
  case Nil
  then show ?case by simp
next
  case (Cons a states)
  show ?case
  proof (cases "normalize_state a")
    case (Inl e)
    then show ?thesis by simp
  next
    case (Inr n)
    with Cons.prems have "s \<noteq> a"
      by (auto simp: normalize_state_def truediv_def pow10_nonzero split: if_splits)
    with Cons obtain e where "normalize_states states = Inl e" by auto
    with Inr show ?thesis by simp
  qed
qed

lemma detect_zero_reserve0_empty:
  assumes "db block = Inr states" and "s \<in> set states" and "reserve0 s = 0"
  shows "detect_arbitrage_opportunities self db block min_spread_arg = []"
  using assms normalize_states_zero_reserve0 [OF assms(2,3)]
  by (auto simp: detect_arbitrage_opportunities_def detect_body_def Let_def split: sum.splits)

text \<open>
  C3. A pool with a zero reserve is not left out of the comparisons. With the two pools
  priced 2000 and 2020 the detector returns their opportunity (100 bps, above the default
  50); with a third pool at the same block whose \<open>reserve0\<close> is 0, the price of that pool
  divides by zero in the normalisation loop, and with a third pool whose \<open>reserve1\<close> is 0,
  its price 0 is the divisor of the spread: either exception reaches the handler, and the
  detector returns the empty list, the opportunity of the two sound pools included.
\<close>

theorem detect_zero_reserve_discards_block:
  "detect_arbitrage_opportunities default_analyzer
     (\<lambda>block. Inr [uniswap_pool, sushiswap_pool]) 18000000 None = [example_opportunity]
   \<and> detect_arbitrage_opportunities default_analyzer
       (\<lambda>block. Inr [uniswap_pool, sushiswap_pool, drained_pool]) 18000000 None = []
   \<and> detect_arbitrage_opportunities default_analyzer
       (\<lambda>block. Inr [uniswap_pool, sushiswap_pool, quote_drained_pool]) 18000000 None = []"
  by (simp add: detect_eval)

text \<open>
  When every reserve at the block is positive, no division raises, and the detector returns
  the opportunity of every pair of states \<open>i < j\<close> the pair check accepts: the same two
  tokens, different exchanges, different prices and a spread of at least the threshold.
\<close>

lemma normalize_state_positive:
  assumes "0 < reserve0 s" and "0 < reserve1 s"
  shows "\<exists>n. normalize_state s = Inr n \<and> 0 < price_token0_in_token1 n"
proof -
  define r0 where "r0 = real_of_int (reserve0 s) / pow10 (token0_decimals s)"
  define r1 where "r1 = real_of_int (reserve1 s) / pow10 (token1_decimals s)"
  have p: "0 < pow10 d" for d by (simp add: pow10_def)
  from assms p have pos: "0 < r0" "0 < r1"
    by (simp_all add: r0_def r1_def)
  from p have t0: "truediv (real_of_int (reserve0 s)) (pow10 (token0_decimals s)) = Inr r0"
    and t1: "truediv (real_of_int (reserve1 s)) (pow10 (token1_decimals s)) = Inr r1"
    by (simp_all add: truediv_def r0_def r1_def less_imp_neq [THEN not_sym])
  from pos have t2: "truediv r1 r0 = Inr (r1 / r0)" and "0 < r1 / r0"
    by (simp_all add: truediv_def)
  then show ?thesis
    by (simp add: normalize_state_def t0 t1)
qed

lemma normalize_states_positive:
  assumes "\<forall>s \<in> set states. 0 < reserve0 s \<and> 0 < reserve1 s"
  shows "\<exists>ns. normalize_states states = Inr ns \<and> length ns = length states
           \<and> (\<forall>i < length states. normalize_state (states ! i) = Inr (ns ! i))
           \<and> (\<forall>n \<in> set ns. 0 < price_token0_in_token1 n)"
  using assms
proof (induction states)
  case Nil
  show ?case by simp
next
  case (Cons s states)
  from Cons.prems normalize_state_positive [of s] obtain n where
    n: "normalize_state s = Inr n" "0 < price_token0_in_token1 n" by auto
  from Cons obtain ns where
    ns: "normalize_states states = Inr ns" "length ns = length states"
      "\<forall>i < length states. normalize_state (states ! i) = Inr (ns ! i)"
      "\<forall>n \<in> set ns. 0 < price_token0_in_token1 n"
    by auto
  have "\<forall>i < length (s # states). normalize_state ((s # states) ! i) = Inr ((n # ns) ! i)"
  proof (intro allI impI)
    fix i assume "i < length (s # states)"
    with n ns show "normalize_state ((s # states) ! i) = Inr ((n # ns) ! i)"
      by (cases i) simp_all
  qed
  with n ns show ?case by simp
qed

lemma check_pair_no_raise:
  assumes "0 < price_token0_in_token1 s1" and "0 < price_token0_in_token1 s2"
  shows "\<exists>r. check_pair block ms s1 s2 = Inr r"
  using assms by (simp add: check_pair_def Let_def truediv_def)

lemma check_pair_qualifying:
  assumes "token0_address s1 = token0_address s2" and "token1_address s1 = token1_address s2"
    and "exchange_name s1 \<noteq> exchange_name s2"
    and "price_token0_in_token1 s1 \<noteq> price_token0_in_token1 s2"
    and "0 < min (price_token0_in_token1 s1) (price_token0_in_token1 s2)"
    and "real_of_int ms
           \<le> (max (price_token0_in_token1 s1) (price_token0_in_token1 s2)
                - min (price_token0_in_token1 s1) (price_token0_in_token1 s2))
              / min (price_token0_in_token1 s1) (price_token0_in_token1 s2) * 10000"
  shows "\<exists>opp. check_pair block ms s1 s2 = Inr (Some opp)
           \<and> opportunity.buy_price opp = min (price_token0_in_token1 s1) (price_token0_in_token1 s2)
           \<and> opportunity.sell_price opp = max (price_token0_in_token1 s1) (price_token0_in_token1 s2)"
proof (cases "price_token0_in_token1 s1 < price_token0_in_token1 s2")
  case True
  with assms show ?thesis
    by (simp add: check_pair_def Let_def truediv_def min_def max_def)
next
  case False
  with assms have "price_token0_in_token1 s2 < price_token0_in_token1 s1" by simp
  with assms show ?thesis
    by (simp add: check_pair_def Let_def truediv_def min_def max_def)
qed

lemma inner_loop_complete:
  assumes "\<forall>s2 \<in> set rest. \<exists>r. check_pair block ms s1 s2 = Inr r"
  shows "\<exists>out. inner_loop block ms s1 rest acc = Inr out \<and> set acc \<subseteq> set out
          \<and> (\<forall>s2 \<in> set rest. \<forall>opp. check_pair block ms s1 s2 = Inr (Some opp) \<longrightarrow> opp \<in> set out)"
  using assms
proof (induction rest arbitrary: acc)
  case Nil
  show ?case by simp
next
  case (Cons s2 rest)
  from Cons.prems obtain r where r: "check_pair block ms s1 s2 = Inr r" by auto
  from Cons.prems have rest: "\<forall>s2 \<in> set rest. \<exists>r. check_pair block ms s1 s2 = Inr r" by simp
  show ?case
  proof (cases r)
    case None
    with r Cons.IH [OF rest, of acc] show ?thesis by auto
  next
    case (Some opp)
    from Cons.IH [OF rest, of "acc @ [opp]"] obtain out where
      "inner_loop block ms s1 rest (acc @ [opp]) = Inr out" "set (acc @ [opp]) \<subseteq> set out"
      "\<forall>s2 \<in> set rest. \<forall>opp. check_pair block ms s1 s2 = Inr (Some opp) \<longrightarrow> opp \<in> set out"
      by blast
    with r Some show ?thesis by auto
  qed
qed

lemma outer_loop_complete:
  assumes "\<forall>s \<in> set states. 0 < price_token0_in_token1 s"
  shows "\<exists>out. outer_loop block ms states acc = Inr out \<and> set acc \<subseteq> set out
          \<and> (\<forall>i j opp. i < j \<and> j < length states
                \<and> check_pair block ms (states ! i) (states ! j) = Inr (Some opp)
              \<longrightarrow> opp \<in> set out)"
  using assms
proof (induction states arbitrary: acc)
  case Nil
  show ?case by simp
next
  case (Cons s1 rest)
  from Cons.prems have "\<forall>s2 \<in> set rest. \<exists>r. check_pair block ms s1 s2 = Inr r"
    by (simp add: check_pair_no_raise)
  from inner_loop_complete [OF this, of acc] obtain mid where
    mid: "inner_loop block ms s1 rest acc = Inr mid" "set acc \<subseteq> set mid"
      "\<forall>s2 \<in> set rest. \<forall>opp. check_pair block ms s1 s2 = Inr (Some opp) \<longrightarrow> opp \<in> set mid"
    by blast
  from Cons.prems have "\<forall>s \<in> set rest. 0 < price_token0_in_token1 s" by simp
  from Cons.IH [OF this, of mid] obtain out where
    out: "outer_loop block ms rest mid = Inr out" "set mid \<subseteq> set out"
      "\<forall>i j opp. i < j \<and> j < length rest
          \<and> check_pair block ms (rest ! i) (rest ! j) = Inr (Some opp) \<longrightarrow> opp \<in> set out"
    by blast
  have "opp \<in> set out"
    if "i < j" "j < length (s1 # rest)"
      "check_pair block ms ((s1 # rest) ! i) ((s1 # rest) ! j) = Inr (Some opp)" for i j opp
  proof (cases i)
    case 0
    with that obtain j' where j': "j = Suc j'" "j' < length rest" by (cases j) auto
    with 0 that have "check_pair block ms s1 (rest ! j') = Inr (Some opp)" by simp
    with mid(3) j' have "opp \<in> set mid" by (meson nth_mem)
    with out(2) show ?thesis by blast
  next
    case (Suc i')
    with that obtain j' where j': "j = Suc j'" "j' < length rest" "i' < j'" by (cases j) auto
    with Suc that have "check_pair block ms (rest ! i') (rest ! j') = Inr (Some opp)" by simp
    with out(3) j' show ?thesis by blast
  qed
  with mid out show ?case by auto
qed

lemma detect_emits_every_qualifying_pair:
  assumes db: "db block = Inr states"
    and pos: "\<forall>s \<in> set states. 0 < reserve0 s \<and> 0 < reserve1 s"
    and ij: "i < j" "j < length states"
    and s1: "normalize_state (states ! i) = Inr s1"
    and s2: "normalize_state (states ! j) = Inr s2"
    and emit: "check_pair block (py_or min_spread_arg (min_spread_bps self)) s1 s2 = Inr (Some opp)"
  shows "opp \<in> set (detect_arbitrage_opportunities self db block min_spread_arg)"
proof -
  let ?ms = "py_or min_spread_arg (min_spread_bps self)"
  from normalize_states_positive [OF pos] obtain ns where
    ns: "normalize_states states = Inr ns" "length ns = length states"
      "\<forall>i < length states. normalize_state (states ! i) = Inr (ns ! i)"
      "\<forall>n \<in> set ns. 0 < price_token0_in_token1 n"
    by blast
  from outer_loop_complete [OF ns(4), of block ?ms "[]"] obtain out where
    out: "outer_loop block ?ms ns [] = Inr out"
      "\<forall>i j opp. i < j \<and> j < length ns
          \<and> check_pair block ?ms (ns ! i) (ns ! j) = Inr (Some opp) \<longrightarrow> opp \<in> set out"
    by blast
  from ij ns s1 s2 have "ns ! i = s1" "ns ! j = s2" by auto
  with emit ij ns(2) out(2) have "opp \<in> set out" by auto
  moreover from ij have "\<not> length states < 2" by simp
  with db ns out have "detect_arbitrage_opportunities self db block min_spread_arg = out"
    by (simp add: detect_arbitrage_opportunities_def detect_body_def)
  ultimately show ?thesis by simp
qed

section \<open>The block-range loop: results\<close>

lemma simulate_each_append:
  "fst (simulate_each simulate opps (all_o, all_t)) =
     (all_o @ fst (fst (simulate_each simulate opps ([], []))),
      all_t @ snd (fst (simulate_each simulate opps ([], []))))"
proof (induction opps arbitrary: all_o all_t)
  case Nil
  show ?case by simp
next
  case (Cons opp rest)
  show ?case
  proof (cases "simulate opp")
    case (Inl e)
    then show ?thesis by simp
  next
    case (Inr r)
    show ?thesis
    proof (cases r)
      case None
      with Inr Cons.IH [of "all_o @ [opp]" all_t] Cons.IH [of "[opp]" "[]"]
      show ?thesis by simp
    next
      case (Some trade)
      with Inr Cons.IH [of "all_o @ [opp]" "all_t @ [trade]"] Cons.IH [of "[opp]" "[trade]"]
      show ?thesis by simp
    qed
  qed
qed

lemma analyze_block_append:
  "analyze_block detect simulate ms (all_o, all_t) block =
     (all_o @ fst (analyze_block detect simulate ms ([], []) block),
      all_t @ snd (analyze_block detect simulate ms ([], []) block))"
  by (cases "detect block ms") (simp_all add: analyze_block_def simulate_each_append [of _ _ all_o all_t])

lemma foldl_analyze_block:
  "foldl (analyze_block detect simulate ms) (all_o, all_t) blocks =
     (all_o @ concat (map (\<lambda>block. fst (analyze_block detect simulate ms ([], []) block)) blocks),
      all_t @ concat (map (\<lambda>block. snd (analyze_block detect simulate ms ([], []) block)) blocks))"
proof (induction blocks arbitrary: all_o all_t)
  case Nil
  show ?case by simp
next
  case (Cons block blocks)
  show ?case
    by (subst foldl_Cons, subst analyze_block_append, subst Cons.IH) simp
qed

lemma simulate_each_no_raise:
  assumes "\<forall>opp \<in> set opps. \<exists>r. simulate opp = Inr r"
  shows "simulate_each simulate opps (all_o, all_t) =
           ((all_o @ opps,
             all_t @ concat (map (\<lambda>opp. case simulate opp of Inr (Some trade) \<Rightarrow> [trade] | _ \<Rightarrow> []) opps)),
            None)"
  using assms
proof (induction opps arbitrary: all_o all_t)
  case Nil
  show ?case by simp
next
  case (Cons opp rest)
  from Cons.prems obtain r where r: "simulate opp = Inr r" by auto
  from Cons.prems have rest: "\<forall>opp \<in> set rest. \<exists>r. simulate opp = Inr r" by simp
  show ?case
  proof (cases r)
    case None
    with r Cons.IH [OF rest, of "all_o @ [opp]" all_t] show ?thesis by simp
  next
    case (Some trade)
    with r Cons.IH [OF rest, of "all_o @ [opp]" "all_t @ [trade]"] show ?thesis by simp
  qed
qed



text \<open>
  The analyzer's own detector and simulator never raise, so its loop returns, block after
  block, every detected opportunity and every simulated trade.
\<close>

lemma analyze_historical_opportunities_rows:
  "analyze_historical_opportunities self db from_block to_block min_spread_arg =
     (pd_DataFrame opportunity_keys
        (concat (map (\<lambda>block. detect_arbitrage_opportunities self db block
                                (Some (py_or min_spread_arg (min_spread_bps self))))
                   [from_block..to_block])),
      pd_DataFrame trade_keys
        (concat (map (\<lambda>block.
                   concat (map (\<lambda>opp. case simulate_arbitrage_trade self opp None of
                                         Some trade \<Rightarrow> [trade] | None \<Rightarrow> [])
                             (detect_arbitrage_opportunities self db block
                                (Some (py_or min_spread_arg (min_spread_bps self))))))
                   [from_block..to_block])))"
proof -
  let ?ms = "py_or min_spread_arg (min_spread_bps self)"
  let ?detect = "\<lambda>block ms. Inr (detect_arbitrage_opportunities self db block (Some ms))
                  :: py_error + opportunity list"
  let ?simulate = "\<lambda>opp. Inr (simulate_arbitrage_trade self opp None)
                  :: py_error + trade_simulation option"
  have block: "analyze_block ?detect ?simulate ?ms ([], []) block =
      (detect_arbitrage_opportunities self db block (Some ?ms),
       concat (map (\<lambda>opp. case simulate_arbitrage_trade self opp None of
                            Some trade \<Rightarrow> [trade] | None \<Rightarrow> [])
                 (detect_arbitrage_opportunities self db block (Some ?ms))))" for block
  proof -
    have "simulate_each ?simulate opps ([], []) =
        ((opps, concat (map (\<lambda>opp. case ?simulate opp of Inr (Some trade) \<Rightarrow> [trade] | _ \<Rightarrow> []) opps)),
         None)" for opps
      using simulate_each_no_raise [of opps ?simulate "[]" "[]"] by simp
    moreover have "(case ?simulate opp of Inr (Some trade) \<Rightarrow> [trade] | _ \<Rightarrow> []) =
        (case simulate_arbitrage_trade self opp None of Some trade \<Rightarrow> [trade] | None \<Rightarrow> [])" for opp
      by (simp split: option.splits)
    ultimately show ?thesis by (simp add: analyze_block_def)
  qed
  show ?thesis
    unfolding analyze_historical_opportunities_def analyze_blocks_def Let_def
    by (subst foldl_analyze_block) (simp add: block)
qed




section \<open>Summary statistics: results\<close>

lemma concat_map_Nil: "concat (map (\<lambda>x. []) xs) = []"
  by (induction xs) simp_all

text \<open>On empty frames that have their columns, every guard returns 0.\<close>

lemma summary_empty_with_columns:
  "get_opportunity_summary (DataFrame opportunity_keys []) (DataFrame trade_keys []) =
     Some \<lparr>total_opportunities = 0, total_trades = 0, profitable_trades = 0,
           profitable_rate = 0, avg_spread_bps = 0, max_spread_bps = 0,
           total_gross_profit = 0, total_net_profit = 0, total_gas_costs = 0, avg_roi = 0\<rparr>"
  by (simp add: get_opportunity_summary_def summary_body_def and_then_def count_profitable_def
      column_def if_rows_def trade_keys_def)

text \<open>
  C7. A run that finds no opportunity returns the two frames \<^verbatim>\<open>pd.DataFrame([])\<close>, which
  have no rows and no columns. On them \<^verbatim>\<open>get_opportunity_summary\<close> returns the empty
  dictionary, not a summary with zero rates: the value of \<^verbatim>\<open>'profitable_trades'\<close> reads the
  column \<^verbatim>\<open>is_profitable\<close> without the \<^verbatim>\<open>len(df_trades) > 0\<close> guard the other values have,
  which raises \<^verbatim>\<open>KeyError\<close>, and the handler returns \<^verbatim>\<open>{}\<close>.
\<close>

theorem get_opportunity_summary_empty:
  "analyze_historical_opportunities self (\<lambda>block. Inr []) from_block to_block min_spread_arg
     = (pd_DataFrame opportunity_keys [], pd_DataFrame trade_keys [])
   \<and> get_opportunity_summary (pd_DataFrame opportunity_keys []) (pd_DataFrame trade_keys []) = None"
proof -
  have "detect_arbitrage_opportunities self (\<lambda>block. Inr []) block m = []" for block m
    by (simp add: detect_arbitrage_opportunities_def detect_body_def)
  then have "analyze_historical_opportunities self (\<lambda>block. Inr []) from_block to_block
      min_spread_arg = (pd_DataFrame opportunity_keys [], pd_DataFrame trade_keys [])"
    by (simp add: analyze_historical_opportunities_rows concat_map_Nil)
  moreover have "get_opportunity_summary (pd_DataFrame opportunity_keys [])
      (pd_DataFrame trade_keys []) = None"
    by (simp add: get_opportunity_summary_def summary_body_def and_then_def
        count_profitable_def column_def pd_DataFrame_def)
  ultimately show ?thesis by blast
qed

end
